theory Spec2Isabelle
  imports Main "HOL-Library.Word"
begin

section \<open>Bytes, panics and the big-integer primitives\<close>

text \<open>
  The Go code works on \<^verbatim>\<open>[]byte\<close> and on \<^verbatim>\<open>math/big.Int\<close>. A byte is an 8-bit word,
  a \<^verbatim>\<open>big.Int\<close> is an unbounded HOL \<open>int\<close>. Every \<^verbatim>\<open>panic\<close> of the code is a value of
  \<open>panic\<close>; the constructors are named after the panic messages.
\<close>

type_synonym byte = "8 word"

datatype panic =
    invalid_length      \<comment> \<open>\<^verbatim>\<open>panic(errors.New("invalid length"))\<close>\<close>
  | out_of_order        \<comment> \<open>\<^verbatim>\<open>panic(errors.New("out of order"))\<close>\<close>
  | negative            \<comment> \<open>\<^verbatim>\<open>panic(errors.New("negative"))\<close>\<close>
  | not_square          \<comment> \<open>\<^verbatim>\<open>panic(errors.New("not square"))\<close>\<close>
  | buffer_too_small    \<comment> \<open>\<^verbatim>\<open>big.Int.FillBytes\<close>: the value does not fit the buffer\<close>
  | slice_out_of_range  \<comment> \<open>run-time panic of a slice expression\<close>

text \<open>\<^verbatim>\<open>big.Int.SetBytes\<close>: the bytes read as a big-endian unsigned integer.\<close>

definition SetBytes :: "byte list \<Rightarrow> int" where
  "SetBytes b = foldl (\<lambda>z c. z * 256 + uint c) 0 b"

text \<open>
  \<^verbatim>\<open>big.Int.Bytes\<close>: the absolute value as a big-endian byte slice of minimal length,
  so without leading zero bytes, and empty for 0.
\<close>

function Bytes_nat :: "nat \<Rightarrow> byte list" where
  "Bytes_nat n = (if n = 0 then [] else Bytes_nat (n div 256) @ [of_nat (n mod 256)])"
  by pat_completeness auto
termination
  by (relation "measure (\<lambda>n. n)") auto

definition Bytes :: "int \<Rightarrow> byte list" where
  "Bytes x = Bytes_nat (nat \<bar>x\<bar>)"

text \<open>
  \<^verbatim>\<open>big.Int.FillBytes(buf)\<close>: the absolute value, big-endian, zero-extended to the
  length of the buffer; it panics when the value does not fit.
\<close>

definition FillBytes :: "nat \<Rightarrow> int \<Rightarrow> panic + byte list" where
  "FillBytes n x =
     (if \<bar>x\<bar> < 256 ^ n then Inr (replicate (n - length (Bytes x)) 0 @ Bytes x)
      else Inl buffer_too_small)"

text \<open>\<^verbatim>\<open>subtle.ConstantTimeCompare\<close>: 1 when the slices have equal contents, else 0.\<close>

definition ConstantTimeCompare :: "byte list \<Rightarrow> byte list \<Rightarrow> int" where
  "ConstantTimeCompare x y = (if x = y then 1 else 0)"

section \<open>fe.go: field elements\<close>

text \<open>
  \<^verbatim>\<open>type Element struct { int big.Int }\<close>: an element is the integer it holds. The
  methods mutate their receiver and return it; the model returns the new value.
\<close>

type_synonym Element = int

text \<open>The loop of \<^verbatim>\<open>reverse\<close>: \<open>i\<close> runs from \<open>len(b)/2 - 1\<close> down to 0 and swaps
  \<open>b[i]\<close> with \<open>b[len(b) - 1 - i]\<close>. \<open>reverse_loop k b\<close> is the loop with \<open>k\<close> iterations left.\<close>

fun reverse_loop :: "nat \<Rightarrow> byte list \<Rightarrow> byte list" where
  "reverse_loop 0 b = b"
| "reverse_loop (Suc i) b =
     (let opp = length b - 1 - i
      in reverse_loop i (b[i := b ! opp, opp := b ! i]))"

definition reverse :: "byte list \<Rightarrow> byte list" where
  "reverse b = reverse_loop (length b div 2) b"

text \<open>\<^verbatim>\<open>fieldOrder\<close>, parsed by \<^verbatim>\<open>SetString(fieldOrder, 10)\<close>.\<close>

definition curveOrder :: Element where
  "curveOrder = 726838724295606890549323807888004534353641360687318060281490199180612328166730772686396383698676545930088884461843637361053498018365439"

text \<open>\<^verbatim>\<open>big.Int.Mod\<close> is the Euclidean modulus; the modulus is always \<open>curveOrder\<close>,
  which is positive, and there HOL's \<open>mod\<close> is the same.\<close>

definition reduce :: "int \<Rightarrow> int \<Rightarrow> Element" where
  "reduce x m = x mod m"

definition SetInt :: "int \<Rightarrow> Element" where
  "SetInt u = u"

definition zero :: Element where
  "zero = SetInt 0"

definition one :: Element where
  "one = SetInt 1"

definition two :: Element where
  "two = SetInt 2"

definition pMinus3Div4 :: Element where
  "pMinus3Div4 = 0x3fffffffffffffffffffffffffffffffffffffffffffffffffffffffbfffffffffffffffffffffffffffffffffffffffffffffffffffffff"

definition SetBytesBig :: "byte list \<Rightarrow> Element" where
  "SetBytesBig u = SetBytes u"

definition SetBytesLittle :: "byte list \<Rightarrow> Element" where
  "SetBytesLittle u = SetBytes (reverse u)"

definition Element_Add :: "Element \<Rightarrow> Element \<Rightarrow> Element" where
  "Element_Add u v = reduce (u + v) curveOrder"

definition Element_Subtract :: "Element \<Rightarrow> Element \<Rightarrow> Element" where
  "Element_Subtract u v = reduce (u - v) curveOrder"

definition Element_Multiply :: "Element \<Rightarrow> Element \<Rightarrow> Element" where
  "Element_Multiply u v = reduce (u * v) curveOrder"

definition Element_Square :: "Element \<Rightarrow> Element" where
  "Element_Square u = reduce (u * u) curveOrder"

definition Element_Negate :: "Element \<Rightarrow> Element" where
  "Element_Negate u = reduce (- u) curveOrder"

definition minusOne :: Element where
  "minusOne = Element_Subtract zero one"

text \<open>\<^verbatim>\<open>big.Int.Exp(u, v, m)\<close> is \<open>u ^ v mod m\<close> for an exponent \<open>v > 0\<close>; the only
  exponents of this program are positive constants.\<close>

definition Exp :: "Element \<Rightarrow> Element \<Rightarrow> Element" where
  "Exp u v = u ^ nat v mod curveOrder"

definition expPMinus3mod4 :: "Element \<Rightarrow> Element" where
  "expPMinus3mod4 e = Exp e pMinus3Div4"

definition Compare :: "Element \<Rightarrow> Element \<Rightarrow> int" where
  "Compare e u = (if e < u then - 1 else if e = u then 0 else 1)"

definition IsZero :: "Element \<Rightarrow> int" where
  "IsZero e = (if sgn e = 0 then 1 else 0)"

definition IsNegative :: "Element \<Rightarrow> int" where
  "IsNegative e = (if sgn e = - 1 then 1 else 0)"

definition IsEqualCT :: "Element \<Rightarrow> Element \<Rightarrow> panic + int" where
  "IsEqualCT e u =
     (case FillBytes 56 e of
        Inl err \<Rightarrow> Inl err
      | Inr su \<Rightarrow>
          (case FillBytes 56 u of
             Inl err \<Rightarrow> Inl err
           | Inr sv \<Rightarrow> Inr (ConstantTimeCompare su sv)))"

definition SelectCT :: "Element \<Rightarrow> Element \<Rightarrow> int \<Rightarrow> Element" where
  "SelectCT u v cond = (if cond = 1 then u else v)"

definition AbsoluteCT :: "Element \<Rightarrow> Element" where
  "AbsoluteCT u = (let minU = Element_Negate u in SelectCT minU u (IsNegative u))"

definition SqrtRatio :: "Element \<Rightarrow> Element \<Rightarrow> panic + (int \<times> Element)" where
  "SqrtRatio u v =
     (let r = Element_Multiply u v;
          r = expPMinus3mod4 r;
          r = Element_Multiply r u;
          check = Element_Square r;
          check = Element_Multiply v check
      in case IsEqualCT check u of
           Inl err \<Rightarrow> Inl err
         | Inr wasSquare \<Rightarrow> Inr (wasSquare, AbsoluteCT r))"

section \<open>fe.go: points in extended coordinates\<close>

record Point =
  X :: Element
  Y :: Element
  T :: Element
  Z :: Element

definition pZero :: Point where
  "pZero = \<lparr>X = SetInt 0, Y = SetInt 1, T = SetInt 0, Z = SetInt 1\<rparr>"


text \<open>\<^verbatim>\<open>res := f0.IsEqualCT(&f1)\<close>, then \<^verbatim>\<open>res = res | f0.IsEqualCT(&f1)\<close> on the
  second pair of products. Both results are 0 or 1, so the bitwise or is 1 when one
  of them is.\<close>

definition Point_IsEqual :: "Point \<Rightarrow> Point \<Rightarrow> panic + int" where
  "Point_IsEqual a q =
     (case IsEqualCT (Element_Multiply (X a) (Y q)) (Element_Multiply (Y a) (X q)) of
        Inl err \<Rightarrow> Inl err
      | Inr res \<Rightarrow>
          (case IsEqualCT (Element_Multiply (Y a) (Y q)) (Element_Multiply (X a) (X q)) of
             Inl err \<Rightarrow> Inl err
           | Inr res' \<Rightarrow> Inr (if res = 1 \<or> res' = 1 then 1 else 0)))"

definition IsInfinity :: "Point \<Rightarrow> panic + int" where
  "IsInfinity a = Point_IsEqual a pZero"

text \<open>\<^verbatim>\<open>D\<close> of decaf.go, the curve constant \<open>-39081\<close> reduced.\<close>

definition D :: Element where
  "D = 726838724295606890549323807888004534353641360687318060281490199180612328166730772686396383698676545930088884461843637361053498018326358"


definition Point_Add :: "Point \<Rightarrow> Point \<Rightarrow> Point" where
  "Point_Add a q =
     (let A = Element_Multiply (X a) (X q);
          B = Element_Multiply (Y a) (Y q);
          C = Element_Multiply (T q) (T a);
          C = Element_Multiply C D;
          D' = Element_Multiply (Z a) (Z q);
          EE = Element_Add (X a) (Y a);
          FF = Element_Add (X q) (Y q);
          E = Element_Multiply EE FF;
          E = Element_Subtract E A;
          E = Element_Subtract E B;
          F = Element_Subtract D' C;
          G = Element_Add D' C;
          H = Element_Subtract B A
      in \<lparr>X = Element_Multiply E F, Y = Element_Multiply G H,
          T = Element_Multiply E H, Z = Element_Multiply F G\<rparr>)"

section \<open>decaf.go: the group element, its encoding and the one-way map\<close>

record DecafElement =
  p :: Point

text \<open>\<^verbatim>\<open>NewGroupElement\<close> returns the zero value of the struct: every coordinate is the
  zero \<^verbatim>\<open>big.Int\<close>.\<close>

definition NewGroupElement :: DecafElement where
  "NewGroupElement = \<lparr>p = \<lparr>X = 0, Y = 0, T = 0, Z = 0\<rparr>\<rparr>"

definition oneMinusD :: Element where
  "oneMinusD = 39082"

definition oneMinusTwoD :: Element where
  "oneMinusTwoD = 78163"

definition sqrtMinusD :: Element where
  "sqrtMinusD = 98944233647732219769177004876929019128417576295529901074099889598043702116001257856802131563896515373927712232092845883226922417596214"

definition invSqrtMinusD :: Element where
  "invSqrtMinusD = 315019913931389607337177038330951043522456072897266928557328499619017160722351061360252776265186336876723201881398623946864393857820716"

text \<open>\<^verbatim>\<open>Encode\<close> ends with \<^verbatim>\<open>return reverse(s.int.Bytes())\<close>.\<close>

definition Encode :: "DecafElement \<Rightarrow> panic + byte list" where
  "Encode e =
     (let u1 = Element_Add (X (p e)) (T (p e));
          u2 = Element_Subtract (X (p e)) (T (p e));
          u1 = Element_Multiply u1 u2;
          u2 = Element_Square (X (p e));
          u2 = Element_Multiply u2 oneMinusD;
          u2 = Element_Multiply u2 u1
      in case SqrtRatio one u2 of
           Inl err \<Rightarrow> Inl err
         | Inr (_, invsqrt) \<Rightarrow>
             (let ratio = Element_Multiply invsqrt u1;
                  ratio = Element_Multiply ratio sqrtMinusD;
                  ratio = AbsoluteCT ratio;
                  u2 = Element_Multiply invSqrtMinusD ratio;
                  u2 = Element_Multiply u2 (Z (p e));
                  u2 = Element_Subtract u2 (T (p e));
                  s = Element_Multiply oneMinusD invsqrt;
                  s = Element_Multiply s (X (p e));
                  s = Element_Multiply s u2;
                  s = AbsoluteCT s
              in Inr (reverse (Bytes s))))"

text \<open>
  \<^verbatim>\<open>Decode\<close> writes its receiver and returns it, or panics. The model returns the panic,
  if any, together with the receiver as the call leaves it.
\<close>

definition Decode :: "DecafElement \<Rightarrow> byte list \<Rightarrow> panic option \<times> DecafElement" where
  "Decode e input =
     (if length input \<noteq> 56 then (Some invalid_length, e)
      else
        let s = SetBytesLittle input
        in if Compare curveOrder s \<noteq> 1 then (Some out_of_order, e)
           else if IsNegative s = 1 then (Some negative, e)
           else
             let four = SetInt 4;
                 ss = Element_Square s;
                 u1 = Element_Add ss one;
                 u2 = Element_Multiply u1 u1;
                 u22 = Element_Multiply four D;
                 u22 = Element_Multiply u22 ss;
                 u2 = Element_Subtract u2 u22;
                 u22 = Element_Multiply u1 u1
             in case SqrtRatio one (Element_Multiply u2 u22) of
                  Inl err \<Rightarrow> (Some err, e)
                | Inr (wasSquare, invsqrt) \<Rightarrow>
                    (let u3 = Element_Multiply two s;
                         u3 = Element_Multiply u3 invsqrt;
                         u3 = Element_Multiply u3 u1;
                         u3 = Element_Multiply u3 sqrtMinusD;
                         u3 = AbsoluteCT u3;
                         x = Element_Multiply u3 invsqrt;
                         x = Element_Multiply x u2;
                         x = Element_Multiply x invSqrtMinusD;
                         y = Element_Subtract one ss;
                         y = Element_Multiply y invsqrt;
                         y = Element_Multiply y u1;
                         t = Element_Multiply x y
                     in if \<not> (wasSquare = 1) then (Some not_square, e)
                        else (None, e\<lparr>p := (p e)\<lparr>X := x, Y := y, T := t, Z := one\<rparr>\<rparr>)))"

text \<open>\<^verbatim>\<open>_map\<close>; the name cannot start with an underscore here.\<close>

definition decaf_map :: "byte list \<Rightarrow> panic + Point" where
  "decaf_map input =
     (let r = SetBytesBig input;
          t = reduce r curveOrder;
          r = Element_Square t;
          r = Element_Negate r;
          rMinOne = Element_Subtract r one;
          u0 = Element_Multiply D rMinOne;
          u01 = Element_Add u0 one;
          u0r = Element_Subtract u0 r;
          u1 = Element_Multiply u01 u0r;
          rPlusOne = Element_Add r one;
          u1 = Element_Multiply u1 rPlusOne
      in case SqrtRatio oneMinusTwoD u1 of
           Inl err \<Rightarrow> Inl err
         | Inr (wasSquare, v) \<Rightarrow>
             (let vPrime = SelectCT v (Element_Multiply t v) wasSquare;
                  sgn = SelectCT one minusOne wasSquare;
                  s = Element_Multiply vPrime rPlusOne;
                  w0 = Element_Multiply two (AbsoluteCT s);
                  w1 = Element_Square s;
                  w1 = Element_Add s one;
                  w2 = Element_Square s;
                  w2 = Element_Subtract w2 one;
                  w3 = Element_Multiply vPrime s;
                  w3 = Element_Multiply w3 rMinOne;
                  w3 = Element_Multiply w3 oneMinusTwoD;
                  w3 = Element_Add w3 sgn
              in Inr \<lparr>X = Element_Multiply w0 w3, Y = Element_Multiply w2 w1,
                      T = Element_Multiply w0 w2, Z = Element_Multiply w1 w3\<rparr>))"

text \<open>\<^verbatim>\<open>OneWayMap\<close> slices the reversed copy as \<^verbatim>\<open>v[:56]\<close> and \<^verbatim>\<open>v[56:112]\<close>, which
  panics on an input shorter than 112 bytes.\<close>

definition OneWayMap :: "DecafElement \<Rightarrow> byte list \<Rightarrow> panic option \<times> DecafElement" where
  "OneWayMap e input =
     (let v = reverse input
      in if length v < 112 then (Some slice_out_of_range, e)
         else
           case decaf_map (take 56 v) of
             Inl err \<Rightarrow> (Some err, e)
           | Inr p1 \<Rightarrow>
               (case decaf_map (take 56 (drop 56 v)) of
                  Inl err \<Rightarrow> (Some err, e)
                | Inr p2 \<Rightarrow> (None, e\<lparr>p := Point_Add p1 p2\<rparr>)))"

section \<open>Valid points\<close>


section \<open>Facts about the constants and the byte conversions\<close>

declare Bytes_nat.simps [simp del]

lemma curveOrder_eq: "curveOrder = 2 ^ 448 - 2 ^ 224 - 1"
  by (simp add: curveOrder_def)

lemma curveOrder_pos: "0 < curveOrder"
  by (simp add: curveOrder_def)

lemma curveOrder_fits: "curveOrder < 256 ^ 56"
  by (simp add: curveOrder_def)

lemma pMinus3Div4_eq: "pMinus3Div4 = (curveOrder - 3) div 4"
  by (simp add: pMinus3Div4_def curveOrder_def)

lemma D_eq: "D = (- 39081) mod curveOrder"
  by (simp add: D_def curveOrder_def)

lemma reduce_range: "0 \<le> reduce x curveOrder \<and> reduce x curveOrder < curveOrder"
  using curveOrder_pos by (simp add: reduce_def)

lemma SetBytes_snoc: "SetBytes (b @ [c]) = SetBytes b * 256 + uint c"
  by (simp add: SetBytes_def)

lemma SetBytes_Bytes_nat: "SetBytes (Bytes_nat n) = int n"
proof (induction n rule: Bytes_nat.induct)
  case (1 n)
  show ?case
  proof (cases "n = 0")
    case True
    then show ?thesis by (simp add: Bytes_nat.simps SetBytes_def)
  next
    case False
    have "uint (of_nat (n mod 256) :: byte) = int n mod 256"
      by (simp add: unsigned_of_nat take_bit_eq_mod of_nat_mod)
    with False 1 show ?thesis
      by (subst Bytes_nat.simps) (simp add: SetBytes_snoc zdiv_int)
  qed
qed

lemma foldl_SetBytes_zeros: "foldl (\<lambda>z c. z * 256 + uint c) 0 (replicate k (0::byte)) = 0"
  by (induction k) simp_all

lemma SetBytes_zeros: "SetBytes (replicate k 0) = 0"
  by (simp add: SetBytes_def foldl_SetBytes_zeros)

lemma SetBytes_pad: "SetBytes (replicate k 0 @ b) = SetBytes b"
  by (simp add: SetBytes_def foldl_SetBytes_zeros)

lemma SetBytes_nonneg_aux: "0 \<le> z \<Longrightarrow> 0 \<le> foldl (\<lambda>z c. z * 256 + uint c) z (b :: byte list)"
  by (induction b arbitrary: z) simp_all

lemma SetBytes_nonneg: "0 \<le> SetBytes b"
  by (simp add: SetBytes_def SetBytes_nonneg_aux)


lemma SetBytes_FillBytes:
  "FillBytes n x = Inr b \<Longrightarrow> SetBytes b = \<bar>x\<bar>"
  by (auto simp: FillBytes_def Bytes_def SetBytes_pad SetBytes_Bytes_nat split: if_splits)

lemma IsEqualCT_fits:
  assumes "\<bar>a\<bar> < 256 ^ 56" "\<bar>b\<bar> < 256 ^ 56"
  shows "IsEqualCT a b = Inr (if \<bar>a\<bar> = \<bar>b\<bar> then 1 else 0)"
proof -
  obtain su where su: "FillBytes 56 a = Inr su" using assms(1) by (simp add: FillBytes_def)
  obtain sv where sv: "FillBytes 56 b = Inr sv" using assms(2) by (simp add: FillBytes_def)
  have "su = sv \<longleftrightarrow> \<bar>a\<bar> = \<bar>b\<bar>"
  proof
    assume "su = sv"
    with SetBytes_FillBytes [OF su] SetBytes_FillBytes [OF sv] show "\<bar>a\<bar> = \<bar>b\<bar>" by simp
  next
    assume "\<bar>a\<bar> = \<bar>b\<bar>"
    with su sv assms show "su = sv" by (simp add: FillBytes_def Bytes_def)
  qed
  with su sv show ?thesis by (simp add: IsEqualCT_def ConstantTimeCompare_def)
qed

lemma IsEqualCT_reduced:
  "0 \<le> a \<Longrightarrow> a < curveOrder \<Longrightarrow> 0 \<le> b \<Longrightarrow> b < curveOrder \<Longrightarrow>
   IsEqualCT a b = Inr (if a = b then 1 else 0)"
  using IsEqualCT_fits [of a b] curveOrder_fits by simp

lemma reverse_loop_length: "length (reverse_loop k b) = length b"
  by (induction k arbitrary: b) (simp_all add: Let_def)

lemma reverse_loop_nth:
  "k \<le> length b div 2 \<Longrightarrow> j < length b \<Longrightarrow>
   reverse_loop k b ! j =
     (if j < k \<or> length b - k \<le> j then b ! (length b - 1 - j) else b ! j)"
proof (induction k arbitrary: b)
  case 0
  then show ?case by simp
next
  case (Suc k)
  let ?opp = "length b - 1 - k"
  let ?b' = "b[k := b ! ?opp, ?opp := b ! k]"
  from Suc.prems have k: "k < ?opp" "?opp < length b" by linarith+
  have len: "length ?b' = length b" by simp
  have IH: "reverse_loop k ?b' ! j =
     (if j < k \<or> length b - k \<le> j then ?b' ! (length b - 1 - j) else ?b' ! j)"
    using Suc.IH [of ?b'] Suc.prems by simp
  show ?case
    unfolding reverse_loop.simps Let_def IH
    using k Suc.prems(2) by (auto simp: nth_list_update)
qed

lemma reverse_eq_rev: "reverse b = rev b"
proof (rule nth_equalityI)
  show "length (reverse b) = length (rev b)"
    by (simp add: reverse_def reverse_loop_length)
next
  fix j assume "j < length (reverse b)"
  then have j: "j < length b" by (simp add: reverse_def reverse_loop_length)
  then have "reverse b ! j = b ! (length b - 1 - j)"
    unfolding reverse_def
    by (subst reverse_loop_nth) (auto intro!: arg_cong [where f = "nth b"])
  with j show "reverse b ! j = rev b ! j" by (simp add: rev_nth)
qed

lemma SetBytesLittle_zeros: "SetBytesLittle (replicate k 0) = 0"
  by (simp add: SetBytesLittle_def reverse_eq_rev SetBytes_zeros)

lemma IsNegative_nonneg: "0 \<le> u \<Longrightarrow> IsNegative u = 0"
  by (simp add: IsNegative_def sgn_if)

lemma AbsoluteCT_nonneg: "0 \<le> u \<Longrightarrow> AbsoluteCT u = u"
  by (simp add: AbsoluteCT_def SelectCT_def IsNegative_nonneg)

lemma AbsoluteCT_reduce: "AbsoluteCT (reduce x curveOrder) = reduce x curveOrder"
  using reduce_range [of x] by (simp add: AbsoluteCT_nonneg)


lemma SqrtRatio_fits:
  assumes "\<bar>u\<bar> < 256 ^ 56"
  shows "SqrtRatio u v =
     (let r = Element_Multiply (expPMinus3mod4 (Element_Multiply u v)) u
      in Inr (if Element_Multiply v (Element_Square r) = \<bar>u\<bar> then 1 else 0, r))"
proof -
  let ?r = "Element_Multiply (expPMinus3mod4 (Element_Multiply u v)) u"
  let ?check = "Element_Multiply v (Element_Square ?r)"
  have c: "0 \<le> ?check" "?check < curveOrder"
    using reduce_range by (simp_all add: Element_Multiply_def)
  then have "\<bar>?check\<bar> < 256 ^ 56" using curveOrder_fits by simp
  from IsEqualCT_fits [OF this assms] c
  have "IsEqualCT ?check u = Inr (if ?check = \<bar>u\<bar> then 1 else 0)" by simp
  moreover have "AbsoluteCT ?r = ?r"
    by (simp add: Element_Multiply_def AbsoluteCT_reduce)
  ultimately show ?thesis by (simp add: SqrtRatio_def Let_def)
qed

lemma reduce_small: "0 \<le> x \<Longrightarrow> x < curveOrder \<Longrightarrow> reduce x curveOrder = x"
  by (simp add: reduce_def)

lemma reduce_0: "reduce 0 curveOrder = 0"
  by (simp add: reduce_def)

lemma reduce_1: "reduce 1 curveOrder = 1"
  by (rule reduce_small) (simp_all add: curveOrder_def)

lemma pMinus3Div4_pos: "0 < nat pMinus3Div4"
  by (simp add: pMinus3Div4_def)

lemma expPMinus3mod4_0: "expPMinus3mod4 0 = 0"
proof -
  have "(0::int) ^ nat pMinus3Div4 = 0"
    by (rule zero_power) (rule pMinus3Div4_pos)
  then show ?thesis
    by (simp only: expPMinus3mod4_def Exp_def mod_0)
qed

lemma expPMinus3mod4_1: "expPMinus3mod4 1 = 1"
  using reduce_1 by (simp add: expPMinus3mod4_def Exp_def reduce_def)

lemmas field_eval =
  Element_Add_def Element_Subtract_def Element_Multiply_def Element_Square_def
  Element_Negate_def zero_def one_def two_def SetInt_def reduce_0 reduce_1
  expPMinus3mod4_0 expPMinus3mod4_1

lemma SqrtRatio_one_one: "SqrtRatio 1 1 = Inr (1, 1)"
  by (subst SqrtRatio_fits) (simp_all add: field_eval Let_def)

lemma SqrtRatio_one_zero: "SqrtRatio 1 0 = Inr (0, 0)"
  by (subst SqrtRatio_fits) (simp_all add: field_eval Let_def)

lemma Compare_curveOrder_0: "Compare curveOrder 0 = 1"
  using curveOrder_pos by (simp add: Compare_def)

lemma Decode_zeros:
  "Decode e (replicate 56 0) = (None, e\<lparr>p := (p e)\<lparr>X := 0, Y := 1, T := 0, Z := 1\<rparr>\<rparr>)"
proof -
  show ?thesis
    unfolding Decode_def
    by (simp add: SetBytesLittle_zeros Compare_curveOrder_0 IsNegative_nonneg Let_def
        field_eval SqrtRatio_one_one AbsoluteCT_nonneg)
qed

lemma Bytes_0: "Bytes 0 = []"
  by (simp add: Bytes_def Bytes_nat.simps)

lemma reverse_Nil: "reverse [] = []"
  by (simp add: reverse_def)

lemma Encode_neutral:
  "X (p e) = 0 \<Longrightarrow> T (p e) = 0 \<Longrightarrow> Encode e = Inr []"
proof -
  assume a: "X (p e) = 0" "T (p e) = 0"
  show ?thesis
    unfolding Encode_def
    by (simp add: a Let_def field_eval SqrtRatio_one_zero AbsoluteCT_nonneg Bytes_0 reverse_Nil)
qed

lemma SetBytes_ff: "SetBytes (replicate k 255) = 256 ^ k - 1"
proof (induction k)
  case 0
  show ?case by (simp add: SetBytes_def)
next
  case (Suc k)
  have "replicate (Suc k) (255::byte) = replicate k 255 @ [255]"
    by (simp add: replicate_append_same)
  with Suc show ?case by (simp add: SetBytes_snoc)
qed

lemma SetBytesLittle_ff: "SetBytesLittle (replicate 56 255) = 256 ^ 56 - 1"
  by (simp only: SetBytesLittle_def reverse_eq_rev rev_replicate SetBytes_ff)

lemma curveOrder_le_ff: "curveOrder \<le> 256 ^ 56 - 1"
  by (simp add: curveOrder_def)

lemma Decode_ff: "Decode e (replicate 56 255) = (Some out_of_order, e)"
  using curveOrder_le_ff
  by (simp add: Decode_def SetBytesLittle_ff Compare_def Let_def del: power_numeral)

lemma SetBytesLittle_one: "SetBytesLittle (1 # replicate 55 0) = 1"
proof -
  have "rev (1 # replicate 55 (0::byte)) = replicate 55 0 @ [1]" by simp
  then show ?thesis
    by (simp only: SetBytesLittle_def reverse_eq_rev SetBytes_pad) (simp add: SetBytes_def)
qed

lemma SqrtRatio_one_total: "\<exists>w r. SqrtRatio 1 v = Inr (w, r)"
  by (subst SqrtRatio_fits) (simp_all add: Let_def)

lemma Decode_cases:
  "fst (Decode e input) \<in> {None, Some invalid_length, Some out_of_order, Some not_square}"
proof -
  have neg: "IsNegative (SetBytesLittle input) = 0"
    by (simp add: SetBytesLittle_def SetBytes_nonneg IsNegative_nonneg)
  obtain w r where sq: "SqrtRatio 1 (Element_Multiply
       (Element_Subtract
         (Element_Multiply (Element_Add (Element_Square (SetBytesLittle input)) 1)
           (Element_Add (Element_Square (SetBytesLittle input)) 1))
         (Element_Multiply (Element_Multiply 4 D) (Element_Square (SetBytesLittle input))))
       (Element_Multiply (Element_Add (Element_Square (SetBytesLittle input)) 1)
         (Element_Add (Element_Square (SetBytesLittle input)) 1))) = Inr (w, r)"
    using SqrtRatio_one_total by blast
  show ?thesis
    by (simp add: Decode_def Let_def neg one_def SetInt_def sq)
qed

lemma Decode_unchanged: "fst (Decode e input) \<noteq> None \<Longrightarrow> snd (Decode e input) = e"
  by (simp add: Decode_def Let_def split: if_splits sum.splits prod.splits)

lemma Decode_in_range:
  assumes "length input = 56" "SetBytesLittle input < curveOrder"
  shows "fst (Decode e input) \<in> {None, Some not_square}"
proof -
  have neg: "IsNegative (SetBytesLittle input) = 0"
    by (simp add: SetBytesLittle_def SetBytes_nonneg IsNegative_nonneg)
  obtain w r where sq: "SqrtRatio 1 (Element_Multiply
       (Element_Subtract
         (Element_Multiply (Element_Add (Element_Square (SetBytesLittle input)) 1)
           (Element_Add (Element_Square (SetBytesLittle input)) 1))
         (Element_Multiply (Element_Multiply 4 D) (Element_Square (SetBytesLittle input))))
       (Element_Multiply (Element_Add (Element_Square (SetBytesLittle input)) 1)
         (Element_Add (Element_Square (SetBytesLittle input)) 1))) = Inr (w, r)"
    using SqrtRatio_one_total by blast
  show ?thesis
    using assms by (simp add: Decode_def Let_def neg one_def SetInt_def sq Compare_def)
qed

section \<open>Decode and Encode at the all-zero string\<close>

text \<open>
  C10. \<^verbatim>\<open>Decode\<close> accepts the 56-byte string of zeros, whatever the receiver held, and
  leaves in it the neutral element: the point with coordinates
  \<open>(X, Y, T, Z) = (0, 1, 0, 1)\<close>, which is \<open>pZero\<close>.
\<close>

theorem Decode_all_zero_is_neutral:
  "fst (Decode e (replicate 56 0)) = None \<and>
   p (snd (Decode e (replicate 56 0))) = \<lparr>X = 0, Y = 1, T = 0, Z = 1\<rparr> \<and>
   p (snd (Decode e (replicate 56 0))) = pZero"
  by (simp add: Decode_zeros pZero_def SetInt_def)

text \<open>
  C1. The round trip fails at the 56-byte string of zeros: its value 0 is below
  \<open>curveOrder\<close> and not negative, \<^verbatim>\<open>Decode\<close> accepts it, and \<^verbatim>\<open>Encode\<close> of the decoded
  element is the empty byte string, not the input. \<^verbatim>\<open>Encode\<close> returns
  \<^verbatim>\<open>reverse(s.int.Bytes())\<close>, and \<^verbatim>\<open>Bytes\<close> drops the leading zero bytes.
\<close>

theorem Decode_Encode_all_zero:
  "SetBytesLittle (replicate 56 0) = 0 \<and>
   fst (Decode NewGroupElement (replicate 56 0)) = None \<and>
   Encode (snd (Decode NewGroupElement (replicate 56 0))) = Inr [] \<and>
   Encode (snd (Decode NewGroupElement (replicate 56 0))) \<noteq> Inr (replicate 56 0)"
proof -
  have "Encode (snd (Decode NewGroupElement (replicate 56 0))) = Inr []"
    by (rule Encode_neutral) (simp_all add: Decode_zeros)
  then show ?thesis
    by (simp add: SetBytesLittle_zeros Decode_zeros)
qed

text \<open>
  C2. \<^verbatim>\<open>Encode\<close> of the neutral element \<open>(0, 1, 0, 1)\<close> is the empty byte string: 0
  bytes, not 56.
\<close>

theorem Encode_neutral_is_empty:
  "Encode \<lparr>p = pZero\<rparr> = Inr [] \<and> length ([] :: byte list) \<noteq> 56"
proof -
  have "Encode \<lparr>p = pZero\<rparr> = Inr []"
    by (rule Encode_neutral) (simp_all add: pZero_def SetInt_def)
  then show ?thesis by simp
qed

section \<open>The sign of a field element\<close>

text \<open>
  C3. \<^verbatim>\<open>SqrtRatio(1, 1)\<close>: here \<open>r = 1 * (1 * 1) ^ ((p - 3) / 4) = 1\<close> is odd, so the
  non-negative root by parity would be \<open>p - 1\<close>. The code returns \<open>r = 1\<close> itself:
  \<^verbatim>\<open>IsNegative\<close> tests the sign of the \<^verbatim>\<open>big.Int\<close>, and a reduced value is never below 0.
\<close>

theorem SqrtRatio_one_one_odd_root:
  "SqrtRatio one one = Inr (1, 1) \<and> odd (1::int) \<and>
   SqrtRatio one one \<noteq> Inr (1, curveOrder - 1)"
  by (simp add: one_def SetInt_def SqrtRatio_one_one curveOrder_def)

text \<open>
  C5. The 56-byte string \<open>01 00 ... 00\<close> has the value 1, which is below \<open>curveOrder\<close>
  and odd. \<^verbatim>\<open>Decode\<close> does not reject it as negative: the call ends in success or in
  the panic \<^verbatim>\<open>not square\<close>.
\<close>

theorem Decode_one_not_negative:
  "SetBytesLittle (1 # replicate 55 0) = 1 \<and> (1::int) < curveOrder \<and> odd (1::int) \<and>
   fst (Decode NewGroupElement (1 # replicate 55 0)) \<noteq> Some negative \<and>
   fst (Decode NewGroupElement (1 # replicate 55 0)) \<in> {None, Some not_square}"
proof -
  let ?b = "1 # replicate 55 (0::byte)"
  have s: "SetBytesLittle ?b = 1" by (rule SetBytesLittle_one)
  have "fst (Decode NewGroupElement ?b) \<in> {None, Some not_square}"
    by (rule Decode_in_range) (simp_all add: s curveOrder_def)
  then show ?thesis using s by (auto simp: curveOrder_def)
qed

section \<open>Decode leaves its receiver alone when it fails\<close>

text \<open>
  C9. When \<^verbatim>\<open>Decode\<close> panics, whatever the panic, the receiver is what it was before
  the call: the four coordinates are written after the last check.
\<close>

theorem Decode_failure_keeps_receiver:
  "fst (Decode e input) = Some err \<Longrightarrow> snd (Decode e input) = e"
  by (rule Decode_unchanged) simp

theorem Decode_failure_keeps_receiver_witness:
  "fst (Decode \<lparr>p = pZero\<rparr> (replicate 56 255)) = Some out_of_order \<and>
   snd (Decode \<lparr>p = pZero\<rparr> (replicate 56 255)) = \<lparr>p = pZero\<rparr>"
  using Decode_failure_keeps_receiver [of "\<lparr>p = pZero\<rparr>" "replicate 56 255" out_of_order]
  by (simp add: Decode_ff)

section \<open>The point operations, coordinate by coordinate\<close>


lemma Element_Multiply_range:
  "0 \<le> Element_Multiply u v \<and> Element_Multiply u v < curveOrder"
  using reduce_range by (simp add: Element_Multiply_def)

lemma Point_IsEqual_eval:
  "Point_IsEqual a q =
     Inr (if (X a * Y q) mod curveOrder = (Y a * X q) mod curveOrder \<or>
             (Y a * Y q) mod curveOrder = (X a * X q) mod curveOrder
          then 1 else 0)"
proof -
  have 1: "IsEqualCT (Element_Multiply (X a) (Y q)) (Element_Multiply (Y a) (X q)) =
      Inr (if Element_Multiply (X a) (Y q) = Element_Multiply (Y a) (X q) then 1 else 0)"
    using Element_Multiply_range by (intro IsEqualCT_reduced) simp_all
  have 2: "IsEqualCT (Element_Multiply (Y a) (Y q)) (Element_Multiply (X a) (X q)) =
      Inr (if Element_Multiply (Y a) (Y q) = Element_Multiply (X a) (X q) then 1 else 0)"
    using Element_Multiply_range by (intro IsEqualCT_reduced) simp_all
  show ?thesis
    unfolding Point_IsEqual_def 1 2
    by (simp add: Element_Multiply_def reduce_def)
qed






lemma one_mod_curveOrder: "1 mod curveOrder = 1"
  using reduce_1 by (simp add: reduce_def)








section \<open>Equality of points\<close>

text \<open>
  C6, as the code has it. \<^verbatim>\<open>IsEqual\<close> never panics and returns 0 or 1; it returns 1
  exactly when at least one of the two cross-product identities holds in the field:
  \<open>X\<^sub>1 * Y\<^sub>2 = Y\<^sub>1 * X\<^sub>2\<close> or \<open>Y\<^sub>1 * Y\<^sub>2 = X\<^sub>1 * X\<^sub>2\<close>. The two results are combined
  with the bitwise or.
\<close>

theorem Point_IsEqual_either:
  "(Point_IsEqual a q = Inr 1 \<or> Point_IsEqual a q = Inr 0) \<and>
   (Point_IsEqual a q = Inr 1 \<longleftrightarrow>
      (X a * Y q) mod curveOrder = (Y a * X q) mod curveOrder \<or>
      (Y a * Y q) mod curveOrder = (X a * X q) mod curveOrder)"
  by (simp add: Point_IsEqual_eval)

text \<open>
  C6 as stated fails: for the neutral element and the point \<open>(1, 0, 0, 1)\<close> the second
  identity holds (\<open>1 * 0 = 0 * 1\<close>) and the first does not (\<open>0 * 0 \<noteq> 1 * 1\<close>), and
  \<^verbatim>\<open>IsEqual\<close> returns 1.
\<close>

theorem Point_IsEqual_not_both:
  "\<not> (Point_IsEqual pZero \<lparr>X = 1, Y = 0, T = 0, Z = 1\<rparr> = Inr 1 \<longleftrightarrow>
        (X pZero * Y \<lparr>X = 1, Y = 0, T = 0, Z = 1\<rparr>) mod curveOrder
          = (Y pZero * X \<lparr>X = 1, Y = 0, T = 0, Z = 1\<rparr>) mod curveOrder \<and>
        (Y pZero * Y \<lparr>X = 1, Y = 0, T = 0, Z = 1\<rparr>) mod curveOrder
          = (X pZero * X \<lparr>X = 1, Y = 0, T = 0, Z = 1\<rparr>) mod curveOrder)"
  by (simp add: Point_IsEqual_eval pZero_def SetInt_def one_mod_curveOrder)

section \<open>The range of a field element\<close>



section \<open>The one-way map\<close>

lemma oneMinusTwoD_fits: "\<bar>oneMinusTwoD\<bar> < 256 ^ 56"
  by (simp add: oneMinusTwoD_def)

lemma AbsoluteCT_Multiply: "AbsoluteCT (Element_Multiply u v) = Element_Multiply u v"
  by (simp add: Element_Multiply_def AbsoluteCT_reduce)

text \<open>
  C4. What \<^verbatim>\<open>_map\<close> computes, for every input: it never panics, \<open>CT_ABS(s)\<close> is \<open>s\<close> itself,
  and the point is \<open>(w0 * w3, w2 * w1, w0 * w2, w1 * w3)\<close> with \<open>w0 = 2 * s\<close>,
  \<open>w2 = s\<^sup>2 - 1\<close>, \<open>w3 = v' * s * (r - 1) * (1 - 2D) + sgn\<close> and \<open>w1 = s + 1\<close>, not
  \<open>s\<^sup>2 + 1\<close>: \<^verbatim>\<open>w1.Square(&s)\<close> is overwritten by \<^verbatim>\<open>w1.Add(&s, one)\<close>.
\<close>

theorem decaf_map_computes:
  "decaf_map input =
     (let t = reduce (SetBytesBig input) curveOrder;
          r = Element_Negate (Element_Square t);
          rMinOne = Element_Subtract r one;
          u0 = Element_Multiply D rMinOne;
          rPlusOne = Element_Add r one;
          u1 = Element_Multiply
                 (Element_Multiply (Element_Add u0 one) (Element_Subtract u0 r)) rPlusOne;
          v = Element_Multiply (expPMinus3mod4 (Element_Multiply oneMinusTwoD u1)) oneMinusTwoD;
          wasSquare = Element_Multiply u1 (Element_Square v) = oneMinusTwoD;
          vPrime = (if wasSquare then v else Element_Multiply t v);
          sgn = (if wasSquare then one else minusOne);
          s = Element_Multiply vPrime rPlusOne;
          w0 = Element_Multiply two s;
          w1 = Element_Add s one;
          w2 = Element_Subtract (Element_Square s) one;
          w3 = Element_Add
                 (Element_Multiply
                   (Element_Multiply (Element_Multiply vPrime s) rMinOne) oneMinusTwoD) sgn
      in Inr \<lparr>X = Element_Multiply w0 w3, Y = Element_Multiply w2 w1,
              T = Element_Multiply w0 w2, Z = Element_Multiply w1 w3\<rparr>)"
proof -
  have a: "\<bar>oneMinusTwoD\<bar> = oneMinusTwoD" by (simp add: oneMinusTwoD_def)
  show ?thesis
    unfolding decaf_map_def SqrtRatio_fits [OF oneMinusTwoD_fits] a
    by (simp add: Let_def SelectCT_def AbsoluteCT_Multiply)
qed

end
